theory Spec2Isabelle
  imports Complex_Main "HOL-Library.Word" "HOL-Library.Log_Nat"
begin

section \<open>Machine numbers\<close>

text \<open>
  Go's \<open>int64\<close>, \<open>uint64\<close> and \<open>uint32\<close> are words: \<open>+\<close> wraps, \<open>sint\<close> reads an
  \<open>int64\<close>, \<open>uint\<close> an unsigned value. Go's \<open>int\<close> is the 64-bit \<open>int\<close> of the
  amd64 build; the only \<open>int\<close> values of the model are converted process ids, which
  are below \<open>2 ^ 32\<close>.
\<close>

type_synonym int64 = "64 word"
type_synonym uint64 = "64 word"
type_synonym uint32 = "32 word"
type_synonym uintptr = "64 word"

definition in_int64 :: "int \<Rightarrow> bool" where
  "in_int64 i \<longleftrightarrow> - (2 ^ 63) \<le> i \<and> i < 2 ^ 63"

subsection \<open>float64\<close>

text \<open>
  A finite \<open>float64\<close> is the rational number it denotes. Every arithmetic operation of
  the source is the exact operation followed by IEEE 754 rounding to the nearest
  binary64 value, ties to even: 53 significant bits, exponent of the last bit at least
  \<open>-1074\<close> (subnormal numbers). Infinities and NaN are not modelled: the operands of
  the source are weights, byte counts below \<open>2 ^ 64\<close>, proportions in \<open>[0, 1]\<close> and
  elapsed seconds, every divisor is tested positive first, and no result comes near
  \<open>2 ^ 1024\<close>.
\<close>

type_synonym float64 = rat

definition pow2 :: "int \<Rightarrow> rat" where
  "pow2 k = (if 0 \<le> k then 2 ^ nat k else 1 / 2 ^ nat (- k))"

definition round_half_even :: "rat \<Rightarrow> int" where
  "round_half_even x =
     (let f = \<lfloor>x\<rfloor>; d = x - of_int f
      in if d < 1 / 2 then f
         else if 1 / 2 < d then f + 1
         else if even f then f else f + 1)"

text \<open>\<open>ilog2 x\<close> is the exponent of the leading bit of a positive \<open>x\<close>.\<close>

definition ilog2 :: "rat \<Rightarrow> int" where
  "ilog2 x =
     (case quotient_of x of
        (a, b) \<Rightarrow> let k = bitlen a - bitlen b in if pow2 k \<le> x then k else k - 1)"

definition float64_round :: "rat \<Rightarrow> float64" where
  "float64_round x =
     (if x = 0 then 0
      else let e = max (ilog2 \<bar>x\<bar> - 52) (- 1074)
           in of_int (round_half_even (x / pow2 e)) * pow2 e)"

definition fadd :: "float64 \<Rightarrow> float64 \<Rightarrow> float64" where
  "fadd a b = float64_round (a + b)"

definition fmul :: "float64 \<Rightarrow> float64 \<Rightarrow> float64" where
  "fmul a b = float64_round (a * b)"

definition fdiv :: "float64 \<Rightarrow> float64 \<Rightarrow> float64" where
  "fdiv a b = float64_round (a / b)"

text \<open>\<open>float64(i)\<close> of an \<open>int64\<close>.\<close>

definition float64_of_int64 :: "int64 \<Rightarrow> float64" where
  "float64_of_int64 i = float64_round (of_int (sint i))"

text \<open>
  \<open>int64(x)\<close> of a \<open>float64\<close> drops the fraction (towards zero). Go leaves the result
  open when the value does not fit; the amd64 conversion instruction then gives
  \<open>-2 ^ 63\<close>, which is what the model returns.
\<close>

definition trunc_toward_zero :: "rat \<Rightarrow> int" where
  "trunc_toward_zero x = (if 0 \<le> x then \<lfloor>x\<rfloor> else \<lceil>x\<rceil>)"

definition int64_of_float64 :: "float64 \<Rightarrow> int64" where
  "int64_of_float64 x =
     (let t = trunc_toward_zero x
      in if in_int64 t then word_of_int t else word_of_int (- (2 ^ 63)))"

section \<open>Errors\<close>

text \<open>
  Go's \<open>error\<close> values. \<open>StorageError msg\<close> is an error of the SQLite driver, with the
  text its \<open>Error()\<close> method returns; \<open>ErrNoRows\<close> is \<open>sql.ErrNoRows\<close>. The other
  constructors are the errors the source makes with \<open>fmt.Errorf\<close>.
\<close>

datatype error =
    GetIfTable2Failed uintptr
  | TcpTableSizeFailed
  | GetExtendedTcpTableFailed uintptr
  | UdpTableSizeFailed
  | GetExtendedUdpTableFailed uintptr
  | SystemNetworkIOFailed error
  | TCPStatsFailed error
  | UDPStatsFailed error
  | ErrNoRows
  | StorageError string
  | InsufficientDiskSpace error
  | InsertRetriesExhausted

fun error_message :: "error \<Rightarrow> string" where
  "error_message (StorageError msg) = msg"
| "error_message ErrNoRows = ''sql: no rows in result set''"
| "error_message _ = []"

section \<open>The durable store (db.go)\<close>

record UsageRecord =
  ID :: int64
  AppName :: string
  ProcessID :: int
  UploadBytes :: int64
  DownloadBytes :: int64
  Timestamp :: int64
  IsTemporary :: bool
  ExpiresAt :: int64

record DailySummary =
  ID :: int64
  Date :: string
  TotalUpload :: int64
  TotalDownload :: int64

record AppMetadata =
  AppName :: string
  ExecutablePath :: string
  FirstSeen :: int64
  LastSeen :: int64

text \<open>
  The tables. A row of \<open>daily_summaries\<close> is found by its unique \<open>date\<close>, a row of
  \<open>app_metadata\<close> by its primary key \<open>app_name\<close>; \<open>usage_records\<close> is the list of
  its rows, oldest first. An INTEGER column holds an \<open>int\<close>: SQLite adds two integers
  exactly as long as the sum fits in 64 bits and changes to floating point beyond, which
  the model leaves out, so a statement about a sum of stored totals carries the range as
  a hypothesis. \<open>usage_seq\<close> and \<open>summary_seq\<close> are the last \<open>id\<close> that
  AUTOINCREMENT gave out in each table.
\<close>

record daily_summaries_row =
  id :: int
  total_upload :: int
  total_download :: int

record DB =
  usage_records :: "UsageRecord list"
  usage_seq :: int
  daily_summaries :: "string \<rightharpoonup> daily_summaries_row"
  summary_seq :: int
  app_metadata :: "string \<rightharpoonup> AppMetadata"

text \<open>
  Every statement the driver runs can fail for a reason outside the tables (the file is
  locked, the disk is full, the connection is closed). Its outcome is an input of the
  model, \<open>fault\<close>: \<open>None\<close> when the statement runs, \<open>Some err\<close> when the driver
  returns \<open>err\<close> and changes nothing.
\<close>

subsection \<open>InsertUsageRecord\<close>

text \<open>
  \<open>findSubstring\<close>: the loop \<open>for i := 0; i <= len(s)-len(substr); i++\<close>, with the
  subtraction on Go's signed \<open>int\<close>.
\<close>

function findSubstring_from :: "nat \<Rightarrow> string \<Rightarrow> string \<Rightarrow> bool" where
  "findSubstring_from i s substr =
     (if int i \<le> int (length s) - int (length substr)
      then (if take (length substr) (drop i s) = substr then True
            else findSubstring_from (i + 1) s substr)
      else False)"
  by pat_completeness auto
termination
  by (relation "measure (\<lambda>(i, s, substr). Suc (length s) - i)") auto

definition findSubstring :: "string \<Rightarrow> string \<Rightarrow> bool" where
  "findSubstring s substr = findSubstring_from 0 s substr"

definition contains_str :: "string \<Rightarrow> string \<Rightarrow> bool" where
  "contains_str s substr \<longleftrightarrow>
     length substr \<le> length s \<and>
     (s = substr \<or>
      length substr < length s \<and>
      (take (length substr) s = substr \<or>
       drop (length s - length substr) s = substr \<or>
       length substr < length s \<and> findSubstring s substr))"

definition is_lock_error :: "error \<Rightarrow> bool" where
  "is_lock_error err \<longleftrightarrow>
     contains_str (error_message err) ''database is locked'' \<or>
     contains_str (error_message err) ''SQLITE_BUSY''"

text \<open>
  \<open>time.Duration\<close> counts nanoseconds. The backoff before attempt \<open>i + 1\<close> is
  \<open>time.Duration(50*(1<<uint(i))) * time.Millisecond\<close>.
\<close>

definition Millisecond :: int where
  "Millisecond = 1000000"

definition Second :: int where
  "Second = 1000000000"

definition backoff :: "nat \<Rightarrow> int" where
  "backoff i = 50 * 2 ^ i * Millisecond"

definition maxRetries :: nat where
  "maxRetries = 5"

text \<open>
  What one call of \<open>InsertUsageRecord\<close> does: the error it returns (\<open>None\<close> for nil),
  the durations it slept, in order, the number of \<open>Exec\<close> calls it made, and the table.
  \<open>outcome i\<close> is the fault of the \<open>Exec\<close> call of attempt \<open>i\<close> (counted from 0).
\<close>

record insert_run =
  returned :: "error option"
  slept :: "int list"
  execs :: nat
  store :: DB

definition insert_row :: "UsageRecord \<Rightarrow> DB \<Rightarrow> DB" where
  "insert_row record db =
     db\<lparr>usage_records :=
          usage_records db @ [record\<lparr>UsageRecord.ID := word_of_int (usage_seq db + 1)\<rparr>],
        usage_seq := usage_seq db + 1\<rparr>"

function InsertUsageRecord_loop ::
  "(nat \<Rightarrow> error option) \<Rightarrow> UsageRecord \<Rightarrow> nat \<Rightarrow> insert_run \<Rightarrow> insert_run" where
  "InsertUsageRecord_loop outcome record i run =
     (if i < maxRetries
      then (case outcome i of
              None \<Rightarrow>
                run\<lparr>returned := None, execs := execs run + 1,
                    store := insert_row record (store run)\<rparr>
            | Some err \<Rightarrow>
                if i < maxRetries - 1 \<and> is_lock_error err
                then InsertUsageRecord_loop outcome record (i + 1)
                       (run\<lparr>execs := execs run + 1, slept := slept run @ [backoff i]\<rparr>)
                else run\<lparr>returned := Some err, execs := execs run + 1\<rparr>)
      else run\<lparr>returned := Some InsertRetriesExhausted\<rparr>)"
  by pat_completeness auto
termination
  by (relation "measure (\<lambda>(outcome, record, i, run). maxRetries - i)") auto

definition InsertUsageRecord :: "(nat \<Rightarrow> error option) \<Rightarrow> DB \<Rightarrow> UsageRecord \<Rightarrow> insert_run" where
  "InsertUsageRecord outcome db record =
     InsertUsageRecord_loop outcome record 0
       \<lparr>returned = None, slept = [], execs = 0, store = db\<rparr>"

subsection \<open>The other statements\<close>

text \<open>
  \<open>BatchInsertUsageRecords\<close>: one transaction, so either every row is stored or none.
  \<open>diskFault\<close> is the outcome of \<open>checkDiskSpace\<close>, \<open>fault\<close> that of the transaction.
\<close>

definition BatchInsertUsageRecords ::
  "error option \<Rightarrow> error option \<Rightarrow> DB \<Rightarrow> UsageRecord list \<Rightarrow> error + DB" where
  "BatchInsertUsageRecords diskFault fault db records =
     (if records = [] then Inr db
      else case (if 100 < length records then diskFault else None) of
             Some err \<Rightarrow> Inl (InsufficientDiskSpace err)
           | None \<Rightarrow>
               (case fault of
                  Some err \<Rightarrow> Inl err
                | None \<Rightarrow> Inr (fold insert_row records db)))"

text \<open>
  \<open>UpdateDailySummary\<close>: \<open>INSERT ... ON CONFLICT(date) DO UPDATE SET total_upload =
  total_upload + excluded.total_upload, total_download = total_download +
  excluded.total_download\<close>.
\<close>

definition UpdateDailySummary ::
  "error option \<Rightarrow> DB \<Rightarrow> string \<Rightarrow> int64 \<Rightarrow> int64 \<Rightarrow> error + DB" where
  "UpdateDailySummary fault db date upload download =
     (case fault of
        Some err \<Rightarrow> Inl err
      | None \<Rightarrow>
          (case daily_summaries db date of
             None \<Rightarrow>
               Inr (db\<lparr>daily_summaries := (daily_summaries db)(date \<mapsto>
                          \<lparr>id = summary_seq db + 1,
                           total_upload = sint upload,
                           total_download = sint download\<rparr>),
                        summary_seq := summary_seq db + 1\<rparr>)
           | Some row \<Rightarrow>
               Inr (db\<lparr>daily_summaries := (daily_summaries db)(date \<mapsto>
                          row\<lparr>total_upload := total_upload row + sint upload,
                              total_download := total_download row + sint download\<rparr>)\<rparr>)))"

text \<open>
  \<open>UpsertAppMetadata\<close>: \<open>INSERT ... ON CONFLICT(app_name) DO UPDATE SET executable_path =
  excluded.executable_path, last_seen = excluded.last_seen\<close>.
\<close>

definition UpsertAppMetadata :: "error option \<Rightarrow> DB \<Rightarrow> AppMetadata \<Rightarrow> error + DB" where
  "UpsertAppMetadata fault db metadata =
     (case fault of
        Some err \<Rightarrow> Inl err
      | None \<Rightarrow>
          (case app_metadata db (AppMetadata.AppName metadata) of
             None \<Rightarrow>
               Inr (db\<lparr>app_metadata := (app_metadata db)(AppMetadata.AppName metadata \<mapsto> metadata)\<rparr>)
           | Some row \<Rightarrow>
               Inr (db\<lparr>app_metadata := (app_metadata db)(AppMetadata.AppName metadata \<mapsto>
                          row\<lparr>ExecutablePath := ExecutablePath metadata,
                              LastSeen := LastSeen metadata\<rparr>)\<rparr>)))"

text \<open>
  \<open>GetDailySummary\<close>: \<open>QueryRow(...).Scan(...)\<close> gives the driver's error, or
  \<open>sql.ErrNoRows\<close> when no row has the date, or the row.
\<close>

definition scan_daily_summary :: "error option \<Rightarrow> DB \<Rightarrow> string \<Rightarrow> error + DailySummary" where
  "scan_daily_summary fault db date =
     (case fault of
        Some err \<Rightarrow> Inl err
      | None \<Rightarrow>
          (case daily_summaries db date of
             None \<Rightarrow> Inl ErrNoRows
           | Some row \<Rightarrow>
               Inr \<lparr>ID = word_of_int (id row), Date = date,
                    TotalUpload = word_of_int (total_upload row),
                    TotalDownload = word_of_int (total_download row)\<rparr>))"

definition GetDailySummary :: "error option \<Rightarrow> DB \<Rightarrow> string \<Rightarrow> error + DailySummary" where
  "GetDailySummary fault db date =
     (case scan_daily_summary fault db date of
        Inl err \<Rightarrow>
          if err = ErrNoRows
          then Inr \<lparr>ID = 0, Date = date, TotalUpload = 0, TotalDownload = 0\<rparr>
          else Inl err
      | Inr summary \<Rightarrow> Inr summary)"

definition GetRecordCount :: "DB \<Rightarrow> int" where
  "GetRecordCount db = int (length (usage_records db))"

section \<open>The counter source (monitor\_windows.go)\<close>

record processData =
  processID :: int
  uploadBytes :: int64
  downloadBytes :: int64

text \<open>Of \<open>mibIfRow2\<close> only the two octet counters are read.\<close>

record mibIfRow2 =
  InOctets :: uint64
  OutOctets :: uint64

record tcpRow =
  State :: uint32
  OwningPid :: uint32

record udpRow =
  UdpOwningPid :: uint32

text \<open>
  \<open>getSystemNetworkIO\<close>: \<open>ret\<close> is the return code of \<open>GetIfTable2\<close>, \<open>table\<close> the
  table it filled in (\<open>None\<close> for a nil pointer). The loop adds the counters of every
  row, converted to \<open>int64\<close>, so the result is the cumulative count of all interfaces.
\<close>

fun sum_octets :: "mibIfRow2 list \<Rightarrow> int64 \<times> int64 \<Rightarrow> int64 \<times> int64" where
  "sum_octets [] (upload, download) = (upload, download)"
| "sum_octets (entry # entries) (upload, download) =
     sum_octets entries (upload + OutOctets entry, download + InOctets entry)"

definition getSystemNetworkIO ::
  "uintptr \<Rightarrow> mibIfRow2 list option \<Rightarrow> error + (int64 \<times> int64)" where
  "getSystemNetworkIO ret table =
     (if ret \<noteq> 0 then Inl (GetIfTable2Failed ret)
      else case table of
             None \<Rightarrow> Inr (0, 0)
           | Some entries \<Rightarrow> Inr (sum_octets entries (0, 0)))"

text \<open>
  \<open>getTCPStats\<close> and \<open>getUDPStats\<close>: \<open>sz\<close> is the buffer size the first call
  reports, \<open>ret\<close> the return code of the second call, \<open>rows\<close> the table it wrote.
\<close>

definition getTCPStats :: "uint32 \<Rightarrow> uintptr \<Rightarrow> tcpRow list \<Rightarrow> error + tcpRow list" where
  "getTCPStats sz ret rows =
     (if sz = 0 then Inl TcpTableSizeFailed
      else if ret \<noteq> 0 then Inl (GetExtendedTcpTableFailed ret)
      else Inr rows)"

definition getUDPStats :: "uint32 \<Rightarrow> uintptr \<Rightarrow> udpRow list \<Rightarrow> error + udpRow list" where
  "getUDPStats sz ret rows =
     (if sz = 0 then Inl UdpTableSizeFailed
      else if ret \<noteq> 0 then Inl (GetExtendedUdpTableFailed ret)
      else Inr rows)"

subsection \<open>Weights\<close>

text \<open>
  The three variables the two connection loops of \<open>getNetworkProcesses\<close> update.
  \<open>getProcessPath\<close> is the operating system's answer for a process id during the
  tick, the empty string when the process cannot be opened or queried.
\<close>

record weights =
  processWeights :: "uint32 \<rightharpoonup> float64"
  processNames :: "uint32 \<rightharpoonup> string"
  totalWeight :: float64

definition no_weights :: weights where
  "no_weights = \<lparr>processWeights = Map.empty, processNames = Map.empty, totalWeight = 0\<rparr>"

text \<open>One loop body: \<open>processWeights[pid] += weight\<close> reads 0 for a missing key.\<close>

definition add_connection :: "(uint32 \<Rightarrow> string) \<Rightarrow> float64 \<Rightarrow> uint32 \<Rightarrow> weights \<Rightarrow> weights" where
  "add_connection getProcessPath weight pid s =
     \<lparr>processWeights =
        (processWeights s)(pid \<mapsto>
           fadd (case processWeights s pid of None \<Rightarrow> 0 | Some w \<Rightarrow> w) weight),
      processNames =
        (case processNames s pid of
           Some _ \<Rightarrow> processNames s
         | None \<Rightarrow>
             (let name = getProcessPath pid
              in if name \<noteq> [] then (processNames s)(pid \<mapsto> name) else processNames s)),
      totalWeight = fadd (totalWeight s) weight\<rparr>"

definition tcp_weight :: "tcpRow \<Rightarrow> float64" where
  "tcp_weight conn = (if State conn = 5 then 10 else 1)"

definition udp_weight :: float64 where
  "udp_weight = 1 / 2"

fun tcp_loop :: "(uint32 \<Rightarrow> string) \<Rightarrow> tcpRow list \<Rightarrow> weights \<Rightarrow> weights" where
  "tcp_loop getProcessPath [] s = s"
| "tcp_loop getProcessPath (conn # conns) s =
     tcp_loop getProcessPath conns
       (add_connection getProcessPath (tcp_weight conn) (OwningPid conn) s)"

fun udp_loop :: "(uint32 \<Rightarrow> string) \<Rightarrow> udpRow list \<Rightarrow> weights \<Rightarrow> weights" where
  "udp_loop getProcessPath [] s = s"
| "udp_loop getProcessPath (conn # conns) s =
     udp_loop getProcessPath conns
       (add_connection getProcessPath udp_weight (UdpOwningPid conn) s)"

definition build_weights :: "(uint32 \<Rightarrow> string) \<Rightarrow> tcpRow list \<Rightarrow> udpRow list \<Rightarrow> weights" where
  "build_weights getProcessPath tcpConns udpConns =
     udp_loop getProcessPath udpConns (tcp_loop getProcessPath tcpConns no_weights)"

subsection \<open>Apportioning\<close>

text \<open>
  The body of \<open>for pid, weight := range processWeights\<close>, for one key. Go visits the
  keys of a map once each, in an order it does not fix: the order is the list
  \<open>order\<close>, an input of the model.
\<close>

definition share :: "int64 \<Rightarrow> float64 \<Rightarrow> float64 \<Rightarrow> int64" where
  "share bytes weight weight_sum =
     int64_of_float64 (fmul (float64_of_int64 bytes) (fdiv weight weight_sum))"

definition distribute_one ::
  "weights \<Rightarrow> int64 \<Rightarrow> int64 \<Rightarrow> uint32 \<Rightarrow> (string \<rightharpoonup> processData) \<Rightarrow> (string \<rightharpoonup> processData)" where
  "distribute_one s totalUpload totalDownload pid result =
     (case processWeights s pid of
        None \<Rightarrow> result
      | Some weight \<Rightarrow>
          (case processNames s pid of
             None \<Rightarrow> result
           | Some name \<Rightarrow>
               if name = [] then result
               else result(name \<mapsto>
                      \<lparr>processID = uint pid,
                       uploadBytes = share totalUpload weight (totalWeight s),
                       downloadBytes = share totalDownload weight (totalWeight s)\<rparr>)))"

fun distribute ::
  "weights \<Rightarrow> int64 \<Rightarrow> int64 \<Rightarrow> uint32 list \<Rightarrow> (string \<rightharpoonup> processData) \<Rightarrow> (string \<rightharpoonup> processData)" where
  "distribute s totalUpload totalDownload [] result = result"
| "distribute s totalUpload totalDownload (pid # pids) result =
     distribute s totalUpload totalDownload pids
       (distribute_one s totalUpload totalDownload pid result)"

text \<open>
  \<open>getNetworkProcesses\<close>, from the outcomes of its three queries. The byte counts it
  apportions are the two values \<open>getSystemNetworkIO\<close> returned.
\<close>

definition getNetworkProcesses ::
  "error + (int64 \<times> int64) \<Rightarrow> error + tcpRow list \<Rightarrow> error + udpRow list \<Rightarrow>
   (uint32 \<Rightarrow> string) \<Rightarrow> uint32 list \<Rightarrow> error + (string \<rightharpoonup> processData)" where
  "getNetworkProcesses systemIO tcpStats udpStats getProcessPath order =
     (case systemIO of
        Inl err \<Rightarrow> Inl (SystemNetworkIOFailed err)
      | Inr (totalUpload, totalDownload) \<Rightarrow>
          (case tcpStats of
             Inl err \<Rightarrow> Inl (TCPStatsFailed err)
           | Inr tcpConns \<Rightarrow>
               (case udpStats of
                  Inl err \<Rightarrow> Inl (UDPStatsFailed err)
                | Inr udpConns \<Rightarrow>
                    (let s = build_weights getProcessPath tcpConns udpConns
                     in if 0 < totalWeight s
                        then Inr (distribute s totalUpload totalDownload order Map.empty)
                        else Inr Map.empty))))"

section \<open>The monitor (monitor.go)\<close>

subsection \<open>Time\<close>

text \<open>
  A \<open>time.Time\<close> is the number of nanoseconds since Go's zero time (1 January of year
  1, UTC), so \<open>IsZero\<close> is being 0. \<open>Sub\<close> gives a \<open>Duration\<close>, an \<open>int64\<close> of
  nanoseconds, and stops at the largest and the smallest \<open>int64\<close>.
\<close>

type_synonym time = int

definition IsZero :: "time \<Rightarrow> bool" where
  "IsZero t \<longleftrightarrow> t = 0"

definition Sub :: "time \<Rightarrow> time \<Rightarrow> int" where
  "Sub t u =
     (let d = t - u
      in if d < - (2 ^ 63) then - (2 ^ 63) else if 2 ^ 63 \<le> d then 2 ^ 63 - 1 else d)"

text \<open>Go's \<open>/\<close> on integers drops the fraction; \<open>%\<close> is the rest.\<close>

definition go_div :: "int \<Rightarrow> int \<Rightarrow> int" where
  "go_div a b = sgn a * sgn b * (\<bar>a\<bar> div \<bar>b\<bar>)"

definition go_rem :: "int \<Rightarrow> int \<Rightarrow> int" where
  "go_rem a b = a - b * go_div a b"

text \<open>\<open>Duration.Seconds\<close>: \<open>float64(d / Second) + float64(d % Second) / 1e9\<close>.\<close>

definition Seconds :: "int \<Rightarrow> float64" where
  "Seconds d =
     fadd (float64_round (of_int (go_div d Second)))
          (fdiv (float64_round (of_int (go_rem d Second))) 1000000000)"

text \<open>\<open>Unix\<close>: seconds since 1 January 1970, which is 62135596800 seconds after the zero time.\<close>

definition Unix :: "time \<Rightarrow> int64" where
  "Unix t = word_of_int (t div Second - 62135596800)"

definition Hour :: int where
  "Hour = 3600 * Second"

definition CLEANUP_THRESHOLD :: int where
  "CLEANUP_THRESHOLD = 3 * Second"

subsection \<open>State\<close>

record NetworkStat =
  AppName :: string
  ProcessID :: int
  UploadSpeed :: int64
  DownloadSpeed :: int64
  TotalUpload :: int64
  TotalDownload :: int64
  LastUpdate :: time

record batchRecord =
  appName :: string
  processID :: int
  upload :: int64
  download :: int64
  timestamp :: int64
  isTemporary :: bool
  expiresAt :: int64

text \<open>
  \<open>db\<close> is \<open>None\<close> when the handle the monitor was given is not a \<open>*database.DB\<close>.
  The context and the four locks are left out: every operation below is one whole
  call, run on its own.
\<close>

record Monitor =
  db :: "DB option"
  stats :: "string \<rightharpoonup> NetworkStat"
  batch :: "batchRecord list"
  paused :: bool
  lastUpdate :: time
  saveEnabled :: bool

definition New :: "DB option \<Rightarrow> Monitor" where
  "New d = \<lparr>db = d, stats = Map.empty, batch = [], paused = False, lastUpdate = 0,
            saveEnabled = True\<rparr>"

subsection \<open>collect\<close>

definition timeDelta :: "time \<Rightarrow> NetworkStat \<Rightarrow> float64" where
  "timeDelta now stat =
     (if \<not> IsZero (LastUpdate stat)
      then (let d = Seconds (Sub now (LastUpdate stat)) in if d \<le> 0 then 1 else d)
      else 1)"

text \<open>The body of the first loop of \<open>collect\<close>, for one entry of \<open>processes\<close>.\<close>

definition collect_one :: "time \<Rightarrow> string \<Rightarrow> processData \<Rightarrow> Monitor \<Rightarrow> Monitor" where
  "collect_one now name data m =
     (let uploadDelta = uploadBytes data; downloadDelta = downloadBytes data
      in if uploadDelta = 0 \<and> downloadDelta = 0 then m
         else
           let stat = (case stats m name of
                         Some st \<Rightarrow> st
                       | None \<Rightarrow>
                           \<lparr>AppName = name, ProcessID = processData.processID data,
                            UploadSpeed = 0, DownloadSpeed = 0, TotalUpload = 0,
                            TotalDownload = 0, LastUpdate = 0\<rparr>);
               d = timeDelta now stat
           in m\<lparr>stats := (stats m)(name \<mapsto>
                    stat\<lparr>UploadSpeed := int64_of_float64 (fdiv (float64_of_int64 uploadDelta) d),
                         DownloadSpeed := int64_of_float64 (fdiv (float64_of_int64 downloadDelta) d),
                         TotalUpload := TotalUpload stat + uploadDelta,
                         TotalDownload := TotalDownload stat + downloadDelta,
                         LastUpdate := now\<rparr>),
                batch := batch m @
                  [\<lparr>appName = name, processID = processData.processID data,
                    upload = uploadDelta, download = downloadDelta,
                    timestamp = Unix now, isTemporary = False,
                    expiresAt = Unix (now + 24 * Hour)\<rparr>]\<rparr>)"

text \<open>
  \<open>for appName, data := range processes\<close>: \<open>order\<close> is the order in which Go visits
  the keys of \<open>processes\<close>, each key once.
\<close>

fun collect_loop ::
  "time \<Rightarrow> (string \<rightharpoonup> processData) \<Rightarrow> string list \<Rightarrow> Monitor \<Rightarrow> Monitor" where
  "collect_loop now processes [] m = m"
| "collect_loop now processes (name # names) m =
     collect_loop now processes names
       (case processes name of
          None \<Rightarrow> m
        | Some data \<Rightarrow> collect_one now name data m)"

text \<open>The second loop: each entry is changed on its own, so the order does not matter.\<close>

definition reset_speeds ::
  "(string \<rightharpoonup> processData) \<Rightarrow> (string \<rightharpoonup> NetworkStat) \<Rightarrow> (string \<rightharpoonup> NetworkStat)" where
  "reset_speeds processes st =
     (\<lambda>name. case st name of
        None \<Rightarrow> None
      | Some stat \<Rightarrow>
          (case processes name of
             None \<Rightarrow> Some (stat\<lparr>UploadSpeed := 0, DownloadSpeed := 0\<rparr>)
           | Some _ \<Rightarrow> Some stat))"

text \<open>
  \<open>collect\<close>: \<open>sample\<close> is what \<open>getNetworkProcesses\<close> returned for this tick, \<open>now\<close>
  the clock.
\<close>

definition collect ::
  "error + (string \<rightharpoonup> processData) \<Rightarrow> string list \<Rightarrow> time \<Rightarrow> Monitor \<Rightarrow> error + Monitor" where
  "collect sample order now m =
     (if paused m then Inr m
      else case sample of
             Inl err \<Rightarrow> Inl err
           | Inr processes \<Rightarrow>
               (let m1 = collect_loop now processes order m
                in Inr (m1\<lparr>stats := reset_speeds processes (stats m1), lastUpdate := now\<rparr>)))"

subsection \<open>cleanupInactive, GetStats and the tick\<close>

definition cleanupInactive :: "time \<Rightarrow> Monitor \<Rightarrow> Monitor" where
  "cleanupInactive now m =
     m\<lparr>stats := (\<lambda>name. case stats m name of
                   None \<Rightarrow> None
                 | Some stat \<Rightarrow>
                     if CLEANUP_THRESHOLD < Sub now (LastUpdate stat) then None
                     else Some stat)\<rparr>"

definition GetStats :: "Monitor \<Rightarrow> (string \<rightharpoonup> NetworkStat)" where
  "GetStats m = (\<lambda>k. case stats m k of None \<Rightarrow> None | Some v \<Rightarrow> Some v)"





subsection \<open>flushBatch and SetSaveEnabled\<close>

definition SetSaveEnabled :: "bool \<Rightarrow> Monitor \<Rightarrow> Monitor" where
  "SetSaveEnabled enabled m = m\<lparr>saveEnabled := enabled\<rparr>"

definition to_record :: "batchRecord \<Rightarrow> UsageRecord" where
  "to_record rec =
     \<lparr>UsageRecord.ID = 0, UsageRecord.AppName = appName rec,
      UsageRecord.ProcessID = processID rec, UploadBytes = upload rec,
      DownloadBytes = download rec, Timestamp = timestamp rec,
      IsTemporary = isTemporary rec, ExpiresAt = expiresAt rec\<rparr>"

text \<open>
  \<open>appMetadataMap\<close>: the first record of a name makes its entry. The entries are kept
  in the order of their first record; the upserts of different names change different
  rows, so the order in which Go visits the map does not change the table.
\<close>

fun metadata_of :: "int64 \<Rightarrow> batchRecord list \<Rightarrow> string list \<Rightarrow> AppMetadata list" where
  "metadata_of now [] seen = []"
| "metadata_of now (rec # recs) seen =
     (if appName rec \<in> set seen then metadata_of now recs seen
      else \<lparr>AppMetadata.AppName = appName rec, ExecutablePath = appName rec,
            FirstSeen = timestamp rec, LastSeen = now\<rparr>
           # metadata_of now recs (appName rec # seen))"

text \<open>
  What \<open>flushBatch\<close> reads from outside: the clock, the date it formats, and the
  outcome of each statement.
\<close>

record flush_env =
  flushNow :: time
  today :: string
  diskFault :: "error option"
  insertFault :: "error option"
  upsertFault :: "string \<Rightarrow> error option"
  summaryFault :: "error option"

fun upsert_all :: "(string \<Rightarrow> error option) \<Rightarrow> AppMetadata list \<Rightarrow> DB \<Rightarrow> DB" where
  "upsert_all fault [] d = d"
| "upsert_all fault (metadata # rest) d =
     upsert_all fault rest
       (case UpsertAppMetadata (fault (AppMetadata.AppName metadata)) d metadata of
          Inl err \<Rightarrow> d
        | Inr d1 \<Rightarrow> d1)"

definition flushBatch :: "flush_env \<Rightarrow> Monitor \<Rightarrow> Monitor" where
  "flushBatch env m =
     (if \<not> saveEnabled m then m\<lparr>batch := []\<rparr>
      else if batch m = [] then m
      else
        let b = batch m;
            m1 = m\<lparr>batch := []\<rparr>;
            records = map to_record b;
            totalUpload = foldl (+) 0 (map upload b);
            totalDownload = foldl (+) 0 (map download b);
            metadata = metadata_of (Unix (flushNow env)) b []
        in case db m1 of
             None \<Rightarrow> m1
           | Some d \<Rightarrow>
               (case BatchInsertUsageRecords (diskFault env) (insertFault env) d records of
                  Inl err \<Rightarrow> m1
                | Inr d1 \<Rightarrow>
                    (let d2 = upsert_all (upsertFault env) metadata d1;
                         d3 = (case UpdateDailySummary (summaryFault env) d2 (today env)
                                      totalUpload totalDownload of
                                 Inl err \<Rightarrow> d2
                               | Inr d' \<Rightarrow> d')
                     in m1\<lparr>db := Some d3\<rparr>)))"

declare InsertUsageRecord_loop.simps [simp del]
declare findSubstring_from.simps [simp del]

section \<open>Notions used to state the properties\<close>



text \<open>An attempt that \<open>InsertUsageRecord\<close> repeats: it failed with a lock error.\<close>

definition retryable :: "error option \<Rightarrow> bool" where
  "retryable out = (case out of None \<Rightarrow> False | Some err \<Rightarrow> is_lock_error err)"




text \<open>The text \<open>substr\<close> stands in \<open>s\<close> at position \<open>j\<close>.\<close>

definition occurs_at :: "nat \<Rightarrow> string \<Rightarrow> string \<Rightarrow> bool" where
  "occurs_at j substr s \<longleftrightarrow>
     j + length substr \<le> length s \<and> take (length substr) (drop j s) = substr"

text \<open>The entry of a name after a call of \<open>collect\<close>, when it returned no error.\<close>

definition stat_of :: "string \<Rightarrow> error + Monitor \<Rightarrow> NetworkStat option" where
  "stat_of name res = (case res of Inl err \<Rightarrow> None | Inr m \<Rightarrow> stats m name)"

text \<open>
  The processes that own a connection, and the weights the specification gives them:
  10 for each established TCP connection (state 5), 1 for each other TCP connection,
  one half for each UDP endpoint.
\<close>

definition owners :: "tcpRow list \<Rightarrow> udpRow list \<Rightarrow> uint32 set" where
  "owners tcpConns udpConns = OwningPid ` set tcpConns \<union> UdpOwningPid ` set udpConns"

definition weight_of :: "uint32 \<Rightarrow> tcpRow list \<Rightarrow> udpRow list \<Rightarrow> rat" where
  "weight_of pid tcpConns udpConns =
     10 * of_nat (length (filter (\<lambda>c. OwningPid c = pid \<and> State c = 5) tcpConns)) +
     of_nat (length (filter (\<lambda>c. OwningPid c = pid \<and> State c \<noteq> 5) tcpConns)) +
     of_nat (length (filter (\<lambda>c. UdpOwningPid c = pid) udpConns)) / 2"

definition weight_sum :: "tcpRow list \<Rightarrow> udpRow list \<Rightarrow> rat" where
  "weight_sum tcpConns udpConns =
     10 * of_nat (length (filter (\<lambda>c. State c = 5) tcpConns)) +
     of_nat (length (filter (\<lambda>c. State c \<noteq> 5) tcpConns)) +
     of_nat (length udpConns) / 2"

text \<open>The same weights counted in halves, which are natural numbers.\<close>

definition units :: "uint32 \<Rightarrow> tcpRow list \<Rightarrow> udpRow list \<Rightarrow> nat" where
  "units pid tcpConns udpConns =
     20 * length (filter (\<lambda>c. OwningPid c = pid \<and> State c = 5) tcpConns) +
     2 * length (filter (\<lambda>c. OwningPid c = pid \<and> State c \<noteq> 5) tcpConns) +
     length (filter (\<lambda>c. UdpOwningPid c = pid) udpConns)"

definition units_sum :: "tcpRow list \<Rightarrow> udpRow list \<Rightarrow> nat" where
  "units_sum tcpConns udpConns =
     20 * length (filter (\<lambda>c. State c = 5) tcpConns) +
     2 * length (filter (\<lambda>c. State c \<noteq> 5) tcpConns) + length udpConns"

text \<open>
  What the three variables of the loops hold once the connections \<open>t\<close> and \<open>u\<close> have
  been visited.
\<close>

definition weights_after ::
  "(uint32 \<Rightarrow> string) \<Rightarrow> tcpRow list \<Rightarrow> udpRow list \<Rightarrow> weights \<Rightarrow> bool" where
  "weights_after g t u s \<longleftrightarrow>
     (\<forall>pid. processWeights s pid =
        (if pid \<in> owners t u then Some (of_nat (units pid t u) / 2) else None)) \<and>
     (\<forall>pid. processNames s pid =
        (if pid \<in> owners t u \<and> g pid \<noteq> [] then Some (g pid) else None)) \<and>
     totalWeight s = of_nat (units_sum t u) / 2"

text \<open>A process that owns a connection and has a name, and the entry written for it.\<close>

definition resolved ::
  "(uint32 \<Rightarrow> string) \<Rightarrow> tcpRow list \<Rightarrow> udpRow list \<Rightarrow> uint32 \<Rightarrow> bool" where
  "resolved g t u pid \<longleftrightarrow> pid \<in> owners t u \<and> g pid \<noteq> []"

definition entry_of ::
  "int64 \<Rightarrow> int64 \<Rightarrow> tcpRow list \<Rightarrow> udpRow list \<Rightarrow> uint32 \<Rightarrow> processData" where
  "entry_of up down t u pid =
     \<lparr>processData.processID = uint pid,
      uploadBytes = share up (weight_of pid t u) (weight_sum t u),
      downloadBytes = share down (weight_of pid t u) (weight_sum t u)\<rparr>"

text \<open>The entry of a name in what \<open>getNetworkProcesses\<close> returned.\<close>

definition entry ::
  "string \<Rightarrow> error + (string \<rightharpoonup> processData) \<Rightarrow> processData option" where
  "entry name res = (case res of Inl err \<Rightarrow> None | Inr r \<Rightarrow> r name)"


section \<open>Example states\<close>

definition empty_DB :: DB where
  "empty_DB = \<lparr>usage_records = [], usage_seq = 0, daily_summaries = Map.empty,
                summary_seq = 0, app_metadata = Map.empty\<rparr>"

definition t0 :: time where
  "t0 = 63850000000 * Second"

definition idle_stat :: NetworkStat where
  "idle_stat = \<lparr>AppName = ''app.exe'', ProcessID = 4242, UploadSpeed = 100,
                DownloadSpeed = 200, TotalUpload = 5000, TotalDownload = 9000,
                LastUpdate = t0\<rparr>"

definition pending_record :: batchRecord where
  "pending_record = \<lparr>appName = ''app.exe'', processID = 4242, upload = 5000,
                      download = 9000, timestamp = Unix t0, isTemporary = False,
                      expiresAt = Unix (t0 + 24 * Hour)\<rparr>"

definition busy_monitor :: Monitor where
  "busy_monitor = \<lparr>db = Some empty_DB, stats = [''app.exe'' \<mapsto> idle_stat],
                   batch = [pending_record], paused = False, lastUpdate = t0,
                   saveEnabled = True\<rparr>"

definition quiet_env :: flush_env where
  "quiet_env = \<lparr>flushNow = t0 + 10 * Second, today = ''2024-04-29'', diskFault = None,
                insertFault = None, upsertFault = (\<lambda>name. None), summaryFault = None\<rparr>"

definition busy_twice :: "nat \<Rightarrow> error option" where
  "busy_twice i =
     (if i < 2 then Some (StorageError ''database is locked (5) (SQLITE_BUSY)'') else None)"

definition t1 :: time where
  "t1 = t0 + 500 * Millisecond"

text \<open>
  A machine with one interface that has sent 1000 and received 2000 bytes since boot,
  and one process, with one established TCP connection.
\<close>

definition one_interface :: "error + (int64 \<times> int64)" where
  "one_interface = getSystemNetworkIO 0 (Some [\<lparr>InOctets = 2000, OutOctets = 1000\<rparr>])"

definition first_sample :: "error + (string \<rightharpoonup> processData)" where
  "first_sample =
     getNetworkProcesses one_interface
       (getTCPStats 24 0 [\<lparr>State = 5, OwningPid = 4242\<rparr>]) (getUDPStats 12 0 [])
       (\<lambda>pid. ''app.exe'') [4242]"

text \<open>
  The same process on a machine for which \<open>GetIfTable2\<close> gives no table: both
  counters are 0.
\<close>

definition idle_network :: "error + (string \<rightharpoonup> processData)" where
  "idle_network =
     getNetworkProcesses (getSystemNetworkIO 0 None)
       (getTCPStats 24 0 [\<lparr>State = 5, OwningPid = 4242\<rparr>]) (getUDPStats 12 0 [])
       (\<lambda>pid. ''app.exe'') [4242]"

















section \<open>Properties\<close>

subsection \<open>Machine numbers\<close>



subsection \<open>The durable store\<close>





text \<open>
  C10. When no row has the date and the driver runs the query, \<open>GetDailySummary\<close>
  returns no error but a summary with that date and both totals 0.
\<close>

theorem GetDailySummary_no_row:
  "daily_summaries d date = None \<Longrightarrow>
   GetDailySummary None d date =
     Inr \<lparr>DailySummary.ID = 0, Date = date, DailySummary.TotalUpload = 0,
          DailySummary.TotalDownload = 0\<rparr>"
  by (simp add: GetDailySummary_def scan_daily_summary_def)

theorem GetDailySummary_no_row_witness:
  "daily_summaries empty_DB ''2024-05-01'' = None \<and>
   GetDailySummary None empty_DB ''2024-05-01'' =
     Inr \<lparr>DailySummary.ID = 0, Date = ''2024-05-01'', DailySummary.TotalUpload = 0,
          DailySummary.TotalDownload = 0\<rparr>"
proof -
  have h: "daily_summaries empty_DB ''2024-05-01'' = None"
    by (simp add: empty_DB_def)
  show ?thesis
    using h GetDailySummary_no_row [OF h] by simp
qed

subsection \<open>The retry loop\<close>

lemma loop_retry_step:
  assumes "i < 4" and "retryable (outcome i)"
  shows "InsertUsageRecord_loop outcome r i run =
         InsertUsageRecord_loop outcome r (i + 1)
           (run\<lparr>execs := execs run + 1, slept := slept run @ [backoff i]\<rparr>)"
  using assms
  by (subst InsertUsageRecord_loop.simps)
    (auto simp: retryable_def maxRetries_def split: option.splits)

lemma loop_retries:
  assumes "\<forall>j<n. retryable (outcome (i + j))" and "i + n \<le> 4"
  shows "InsertUsageRecord_loop outcome r i run =
         InsertUsageRecord_loop outcome r (i + n)
           (run\<lparr>execs := execs run + n, slept := slept run @ map backoff [i..<i + n]\<rparr>)"
  using assms
proof (induction n arbitrary: i run)
  case 0
  then show ?case by simp
next
  case (Suc n)
  have r0: "retryable (outcome i)"
    using Suc.prems(1) by (metis add.right_neutral zero_less_Suc)
  have rest: "\<forall>j<n. retryable (outcome (Suc i + j))"
    using Suc.prems(1) by (metis Suc_less_eq add_Suc_right add_Suc)
  have "InsertUsageRecord_loop outcome r i run =
        InsertUsageRecord_loop outcome r (Suc i)
          (run\<lparr>execs := execs run + 1, slept := slept run @ [backoff i]\<rparr>)"
    using loop_retry_step [of i outcome r run] r0 Suc.prems(2) by simp
  also have "\<dots> = InsertUsageRecord_loop outcome r (Suc i + n)
          (run\<lparr>execs := execs run + 1 + n,
               slept := (slept run @ [backoff i]) @ map backoff [Suc i..<Suc i + n]\<rparr>)"
    using Suc.IH [OF rest, of "run\<lparr>execs := execs run + 1, slept := slept run @ [backoff i]\<rparr>"]
      Suc.prems(2) by simp
  also have "(slept run @ [backoff i]) @ map backoff [Suc i..<Suc i + n]
             = slept run @ map backoff [i..<i + Suc n]"
  proof -
    have "[i..<i + Suc n] = i # [Suc i..<Suc i + n]"
      by (simp add: upt_conv_Cons del: upt_Suc)
    then show ?thesis by simp
  qed
  finally show ?case by simp
qed

lemma loop_final:
  assumes "i < 5" and "\<not> retryable (outcome i) \<or> i = 4"
  shows "InsertUsageRecord_loop outcome r i run =
         (case outcome i of
            None \<Rightarrow> run\<lparr>returned := None, execs := execs run + 1,
                        store := insert_row r (store run)\<rparr>
          | Some err \<Rightarrow> run\<lparr>returned := Some err, execs := execs run + 1\<rparr>)"
  using assms
  by (subst InsertUsageRecord_loop.simps)
    (auto simp: retryable_def maxRetries_def split: option.splits)

lemma findSubstring_from_iff:
  "findSubstring_from i s substr \<longleftrightarrow> (\<exists>j\<ge>i. occurs_at j substr s)"
proof (induction i s substr rule: findSubstring_from.induct)
  case (1 i s substr)
  show ?case
  proof (cases "int i \<le> int (length s) - int (length substr)")
    case False
    then have "\<not> findSubstring_from i s substr"
      by (subst findSubstring_from.simps) simp
    moreover have "\<not> (\<exists>j\<ge>i. occurs_at j substr s)"
      using False by (auto simp: occurs_at_def)
    ultimately show ?thesis by simp
  next
    case True
    then have le: "i + length substr \<le> length s" by linarith
    show ?thesis
    proof (cases "take (length substr) (drop i s) = substr")
      case here: True
      then have "findSubstring_from i s substr"
        using True by (subst findSubstring_from.simps) simp
      moreover have "occurs_at i substr s" using here le by (simp add: occurs_at_def)
      ultimately show ?thesis by blast
    next
      case nothere: False
      then have "findSubstring_from i s substr \<longleftrightarrow> findSubstring_from (i + 1) s substr"
        using True by (subst findSubstring_from.simps) simp
      also have "\<dots> \<longleftrightarrow> (\<exists>j\<ge>i + 1. occurs_at j substr s)"
        using "1.IH" True nothere by simp
      also have "\<dots> \<longleftrightarrow> (\<exists>j\<ge>i. occurs_at j substr s)"
      proof
        assume "\<exists>j\<ge>i + 1. occurs_at j substr s"
        then show "\<exists>j\<ge>i. occurs_at j substr s" by (metis add_leD1)
      next
        assume "\<exists>j\<ge>i. occurs_at j substr s"
        then obtain j where j: "i \<le> j" "occurs_at j substr s" by blast
        then have "j \<noteq> i" using nothere by (auto simp: occurs_at_def)
        then have "i + 1 \<le> j" using j(1) by simp
        then show "\<exists>j\<ge>i + 1. occurs_at j substr s" using j(2) by blast
      qed
      finally show ?thesis .
    qed
  qed
qed

lemma occurs_at_iff: "(\<exists>j. occurs_at j substr s) \<longleftrightarrow> (\<exists>xs ys. s = xs @ substr @ ys)"
proof
  assume "\<exists>j. occurs_at j substr s"
  then obtain j where j: "j + length substr \<le> length s" "take (length substr) (drop j s) = substr"
    by (auto simp: occurs_at_def)
  have "drop j s = take (length substr) (drop j s) @ drop (length substr) (drop j s)"
    by (simp only: append_take_drop_id)
  then have "s = take j s @ take (length substr) (drop j s) @ drop (length substr) (drop j s)"
    by (metis append_take_drop_id)
  then show "\<exists>xs ys. s = xs @ substr @ ys" using j(2) by metis
next
  assume "\<exists>xs ys. s = xs @ substr @ ys"
  then obtain xs ys where "s = xs @ substr @ ys" by blast
  then have "occurs_at (length xs) substr s" by (simp add: occurs_at_def)
  then show "\<exists>j. occurs_at j substr s" by blast
qed

text \<open>\<open>contains\<close> is true exactly when the text occurs somewhere in the string.\<close>

lemma contains_str_iff: "contains_str s substr \<longleftrightarrow> (\<exists>xs ys. s = xs @ substr @ ys)"
proof -
  have "contains_str s substr \<longleftrightarrow> (\<exists>j. occurs_at j substr s)"
  proof
    assume c: "contains_str s substr"
    then have len: "length substr \<le> length s" by (simp add: contains_str_def)
    from c consider "s = substr" | "take (length substr) s = substr"
      | "drop (length s - length substr) s = substr" | "findSubstring s substr"
      by (auto simp: contains_str_def)
    then show "\<exists>j. occurs_at j substr s"
    proof cases
      case 1
      then have "occurs_at 0 substr s" by (simp add: occurs_at_def)
      then show ?thesis by blast
    next
      case 2
      then have "occurs_at 0 substr s" using len by (simp add: occurs_at_def)
      then show ?thesis by blast
    next
      case 3
      then have "occurs_at (length s - length substr) substr s"
        using len by (simp add: occurs_at_def)
      then show ?thesis by blast
    next
      case 4
      then show ?thesis by (auto simp: findSubstring_def findSubstring_from_iff)
    qed
  next
    assume "\<exists>j. occurs_at j substr s"
    then obtain j where j: "occurs_at j substr s" by blast
    then have len: "length substr \<le> length s" by (simp add: occurs_at_def)
    show "contains_str s substr"
    proof (cases "length substr = length s")
      case True
      then have "j = 0" using j by (simp add: occurs_at_def)
      then have "s = substr" using j True by (simp add: occurs_at_def)
      then show ?thesis by (simp add: contains_str_def)
    next
      case False
      then have lt: "length substr < length s" using len by simp
      have "findSubstring s substr"
        using j by (auto simp: findSubstring_def findSubstring_from_iff)
      then show ?thesis using lt by (simp add: contains_str_def)
    qed
  qed
  then show ?thesis by (simp add: occurs_at_iff)
qed

lemma is_lock_error_iff:
  "is_lock_error err \<longleftrightarrow>
     (\<exists>xs ys. error_message err = xs @ ''database is locked'' @ ys) \<or>
     (\<exists>xs ys. error_message err = xs @ ''SQLITE_BUSY'' @ ys)"
  by (simp only: is_lock_error_def contains_str_iff)

text \<open>Every run has a deciding attempt among the first five.\<close>

lemma deciding_attempt:
  "\<exists>k::nat. k < 5 \<and> (\<forall>j<k. retryable (outcome j)) \<and> (\<not> retryable (outcome k) \<or> k = 4)"
proof (cases "\<exists>k::nat. k < 4 \<and> \<not> retryable (outcome k)")
  case True
  define k where "k = (LEAST k. \<not> retryable (outcome k))"
  from True obtain k0 where k0: "k0 < 4" "\<not> retryable (outcome k0)" by blast
  have 1: "\<not> retryable (outcome k)"
    unfolding k_def using k0(2) by (rule LeastI [of "\<lambda>k. \<not> retryable (outcome k)"])
  have 2: "k \<le> k0"
    unfolding k_def using k0(2) by (rule Least_le [of "\<lambda>k. \<not> retryable (outcome k)"])
  have 3: "\<forall>j<k. retryable (outcome j)"
    unfolding k_def using not_less_Least by blast
  show ?thesis using 1 2 3 k0(1) by (intro exI [of _ k]) auto
next
  case False
  then show ?thesis by (intro exI [of _ 4]) auto
qed

text \<open>
  C9. A lock error is an error whose text has \<open>database is locked\<close> or
  \<open>SQLITE_BUSY\<close> in it (\<open>is_lock_error_iff\<close>). Let attempt \<open>k\<close> (counted from 0, so
  \<open>k < 5\<close>) be the first that is not a lock error, or the fifth attempt when the first
  four are lock errors. Then
  \<open>InsertUsageRecord\<close> makes exactly the \<open>k + 1\<close> attempts up to it, sleeps
  \<open>50ms * 2 ^ j\<close> after the failed attempt \<open>j\<close> for each \<open>j < k\<close> (50ms, 100ms, 200ms,
  400ms) and returns the outcome of attempt \<open>k\<close>: nil with the row stored when it
  succeeded, its error with nothing stored otherwise. So an error that is not a lock
  error is returned at once, and a success returns no error.
\<close>

theorem InsertUsageRecord_retry:
  assumes "k < 5" and "\<forall>j<k. retryable (outcome j)"
    and "\<not> retryable (outcome k) \<or> k = 4"
  shows "InsertUsageRecord outcome d r =
         \<lparr>returned = outcome k,
          slept = map (\<lambda>j. 50 * 2 ^ j * Millisecond) [0..<k],
          execs = k + 1,
          store = (if outcome k = None then insert_row r d else d)\<rparr>"
proof -
  have "InsertUsageRecord outcome d r =
        InsertUsageRecord_loop outcome r (0 + k)
          (\<lparr>returned = None, slept = [], execs = 0, store = d\<rparr>
             \<lparr>execs := execs \<lparr>returned = None, slept = [], execs = 0, store = d\<rparr> + k,
              slept := slept \<lparr>returned = None, slept = [], execs = 0, store = d\<rparr>
                 @ map backoff [0..<0 + k]\<rparr>)"
    unfolding InsertUsageRecord_def
    using assms(1,2) by (intro loop_retries) auto
  then show ?thesis
    using loop_final [of k outcome r, OF assms(1,3)]
    by (simp add: backoff_def [abs_def] split: option.splits)
qed

lemma lock_error_example:
  "is_lock_error (StorageError ''database is locked (5) (SQLITE_BUSY)'')"
  by code_simp

text \<open>Two lock errors, then success: three attempts, sleeps of 50ms and 100ms, no error.\<close>

theorem InsertUsageRecord_retry_witness:
  "InsertUsageRecord busy_twice empty_DB (to_record pending_record) =
     \<lparr>returned = None, slept = [50 * Millisecond, 100 * Millisecond], execs = 3,
      store = insert_row (to_record pending_record) empty_DB\<rparr>"
proof -
  have 1: "(2::nat) < 5" by simp
  have 2: "\<forall>j<2. retryable (busy_twice j)"
    by (simp add: retryable_def busy_twice_def lock_error_example)
  have 3: "\<not> retryable (busy_twice 2) \<or> (2::nat) = 4"
    by (simp add: retryable_def busy_twice_def)
  have 4: "[0..<2] = [0, Suc 0]"
    by (simp add: upt_rec)
  have 5: "busy_twice 2 = None"
    by (simp add: busy_twice_def)
  show ?thesis
    using InsertUsageRecord_retry [OF 1 2 3, of empty_DB "to_record pending_record"]
    by (simp add: 4 5)
qed

subsection \<open>The sweep and the flush\<close>

text \<open>
  C5. An entry whose \<open>LastUpdate\<close> lies more than 3 seconds before the clock that
  \<open>cleanupInactive\<close> reads is deleted by that sweep: \<open>GetStats\<close> has no entry of its
  name afterwards.
\<close>

theorem cleanupInactive_removes:
  "stats m name = Some stat \<Longrightarrow> 3 * Second < now - LastUpdate stat \<Longrightarrow>
   GetStats (cleanupInactive now m) name = None"
  by (auto simp: GetStats_def cleanupInactive_def CLEANUP_THRESHOLD_def Sub_def Second_def
      Let_def)

theorem cleanupInactive_removes_witness:
  "stats busy_monitor ''app.exe'' = Some idle_stat \<and>
   3 * Second < (t0 + 4 * Second) - LastUpdate idle_stat \<and>
   GetStats (cleanupInactive (t0 + 4 * Second) busy_monitor) ''app.exe'' = None"
proof -
  have 1: "stats busy_monitor ''app.exe'' = Some idle_stat"
    by (simp add: busy_monitor_def)
  have 2: "3 * Second < (t0 + 4 * Second) - LastUpdate idle_stat"
    by (simp add: idle_stat_def Second_def)
  show ?thesis
    using 1 2 cleanupInactive_removes [OF 1 2] by simp
qed

text \<open>
  C8. After \<open>SetSaveEnabled(false)\<close>, \<open>flushBatch\<close> empties the buffer and leaves the
  store as it was, whatever the buffer held and whatever the driver would have answered:
  no usage record, no metadata row and no daily summary is written, and the number of
  usage records is the same. The live statistics are not touched either.
\<close>

theorem flushBatch_disabled:
  "batch (flushBatch env (SetSaveEnabled False m)) = [] \<and>
   db (flushBatch env (SetSaveEnabled False m)) = db m \<and>
   map_option GetRecordCount (db (flushBatch env (SetSaveEnabled False m))) =
     map_option GetRecordCount (db m) \<and>
   stats (flushBatch env (SetSaveEnabled False m)) = stats m"
  by (simp add: flushBatch_def SetSaveEnabled_def)

theorem flushBatch_disabled_witness:
  "batch busy_monitor = [pending_record] \<and>
   batch (flushBatch quiet_env (SetSaveEnabled False busy_monitor)) = [] \<and>
   db (flushBatch quiet_env (SetSaveEnabled False busy_monitor)) = Some empty_DB \<and>
   map_option GetRecordCount (db (flushBatch quiet_env (SetSaveEnabled False busy_monitor))) =
     Some 0"
  using flushBatch_disabled [of quiet_env busy_monitor]
  by (simp add: busy_monitor_def GetRecordCount_def empty_DB_def)

subsection \<open>collect\<close>

lemma collect_one_other:
  "k \<noteq> name \<Longrightarrow> stats (collect_one now k data m) name = stats m name"
  by (simp add: collect_one_def Let_def)

lemma collect_one_no_activity:
  "uploadBytes data = 0 \<Longrightarrow> downloadBytes data = 0 \<Longrightarrow> collect_one now k data m = m"
  by (simp add: collect_one_def)

lemma collect_loop_no_activity:
  assumes "processes name = Some data" "uploadBytes data = 0" "downloadBytes data = 0"
  shows "stats (collect_loop now processes order m) name = stats m name"
proof (induction order arbitrary: m)
  case Nil
  then show ?case by simp
next
  case (Cons k ks)
  show ?case
  proof (cases "k = name")
    case True
    then show ?thesis using assms Cons.IH by (simp add: collect_one_no_activity)
  next
    case False
    then show ?thesis
      using Cons.IH by (simp add: collect_one_other split: option.splits)
  qed
qed

text \<open>
  C6. The claim fails on the code for an entry whose name is in the sample with 0 bytes
  in both directions: the first loop skips it and the second loop resets only the
  names that are missing from the sample, so \<open>collect\<close> leaves the entry as it was,
  speeds included.
\<close>

theorem collect_keeps_speeds_of_zero_delta:
  assumes "\<not> paused m" and "stats m name = Some stat"
    and "processes name = Some data" and "uploadBytes data = 0" and "downloadBytes data = 0"
  shows "\<exists>m'. collect (Inr processes) order now m = Inr m' \<and> stats m' name = Some stat"
proof -
  have "stats (collect_loop now processes order m) name = stats m name"
    using assms(3,4,5) by (rule collect_loop_no_activity)
  then show ?thesis
    using assms(1,2,3) by (simp add: collect_def reset_speeds_def Let_def)
qed

lemma idle_network_entry:
  "entry ''app.exe'' idle_network =
     Some \<lparr>processData.processID = 4242, uploadBytes = 0, downloadBytes = 0\<rparr>"
  by code_simp

text \<open>
  With no interface table the sample gives the process 0 bytes, and the entry keeps its
  speeds of 100 and 200 through the tick.
\<close>

theorem collect_keeps_speeds_of_zero_delta_witness:
  "entry ''app.exe'' idle_network =
     Some \<lparr>processData.processID = 4242, uploadBytes = 0, downloadBytes = 0\<rparr> \<and>
   stats busy_monitor ''app.exe'' = Some idle_stat \<and>
   stat_of ''app.exe'' (collect idle_network [''app.exe''] t1 busy_monitor) = Some idle_stat \<and>
   UploadSpeed idle_stat = 100 \<and> DownloadSpeed idle_stat = 200"
proof -
  have 1: "\<not> paused busy_monitor" "stats busy_monitor ''app.exe'' = Some idle_stat"
    by (simp_all add: busy_monitor_def)
  have "\<exists>processes. idle_network = Inr processes \<and>
      processes ''app.exe'' =
        Some \<lparr>processData.processID = 4242, uploadBytes = 0, downloadBytes = 0\<rparr>"
    using idle_network_entry unfolding entry_def by (auto split: sum.splits)
  then obtain processes where p: "idle_network = Inr processes"
    and 2: "processes ''app.exe'' =
      Some \<lparr>processData.processID = 4242, uploadBytes = 0, downloadBytes = 0\<rparr>"
    by blast
  have 3: "uploadBytes \<lparr>processData.processID = 4242, uploadBytes = 0, downloadBytes = 0\<rparr> = 0"
    "downloadBytes \<lparr>processData.processID = 4242, uploadBytes = 0, downloadBytes = 0\<rparr> = 0"
    by simp_all
  obtain m' where "collect (Inr processes) [''app.exe''] t1 busy_monitor = Inr m'"
    "stats m' ''app.exe'' = Some idle_stat"
    using collect_keeps_speeds_of_zero_delta
      [where m = busy_monitor and name = "''app.exe''" and stat = idle_stat
         and processes = processes and order = "[''app.exe'']" and now = t1,
       OF 1 2 3]
    by blast
  then have "stat_of ''app.exe'' (collect idle_network [''app.exe''] t1 busy_monitor) = Some idle_stat"
    by (simp add: stat_of_def p)
  then show ?thesis
    using idle_network_entry 1(2) by (simp add: idle_stat_def)
qed











subsection \<open>The first sample\<close>

text \<open>
  C2. The claim fails on the code: \<open>getNetworkProcesses\<close> keeps no earlier counters
  and apportions the cumulative counters themselves. On the very first sample of a
  new monitor the process is given all 1000 and 2000 bytes the interface has counted
  since boot, and a second sample half a second later, with the counters unchanged (a
  delta of 0), gives it the same bytes again.
\<close>

theorem first_sample_attributes_cumulative_counters:
  "entry ''app.exe'' first_sample =
     Some \<lparr>processData.processID = 4242, uploadBytes = 1000, downloadBytes = 2000\<rparr> \<and>
   stat_of ''app.exe'' (collect first_sample [''app.exe''] t0 (New (Some empty_DB))) =
     Some \<lparr>AppName = ''app.exe'', ProcessID = 4242, UploadSpeed = 1000,
           DownloadSpeed = 2000, TotalUpload = 1000, TotalDownload = 2000,
           LastUpdate = t0\<rparr> \<and>
   stat_of ''app.exe''
     (case collect first_sample [''app.exe''] t0 (New (Some empty_DB)) of
        Inl err \<Rightarrow> Inl err
      | Inr m \<Rightarrow> collect first_sample [''app.exe''] t1 m) =
     Some \<lparr>AppName = ''app.exe'', ProcessID = 4242, UploadSpeed = 2000,
           DownloadSpeed = 4000, TotalUpload = 2000, TotalDownload = 4000,
           LastUpdate = t1\<rparr>"
  by code_simp

subsection \<open>Rounding to float64\<close>


lemma pow2_power_int: "pow2 k = power_int 2 k"
  by (simp add: pow2_def power_int_def field_simps)

lemma pow2_pos: "0 < pow2 k"
  by (simp add: pow2_power_int)



lemma pow2_nat: "pow2 (int n) = 2 ^ n"
  by (simp add: pow2_def)











lemma float64_round_nonneg: "0 \<le> x \<Longrightarrow> 0 \<le> float64_round x"
proof -
  assume "0 \<le> x"
  then have "0 \<le> x / pow2 e" for e using pow2_pos [of e] by simp
  then have "0 \<le> round_half_even (x / pow2 e)" for e
    by (auto simp: round_half_even_def Let_def)
  then show ?thesis
    using pow2_pos by (simp add: float64_round_def Let_def less_imp_le)
qed







subsection \<open>The weights of the processes\<close>


lemma weight_of_units: "weight_of pid t u = of_nat (units pid t u) / 2"
  by (simp add: weight_of_def units_def field_simps)

lemma weight_sum_units: "weight_sum t u = of_nat (units_sum t u) / 2"
  by (simp add: weight_sum_def units_sum_def field_simps)














subsection \<open>Apportioning\<close>


lemma distribute_one_after:
  assumes "weights_after g t u s"
  shows "distribute_one s up down pid r =
         (if resolved g t u pid then r(g pid \<mapsto> entry_of up down t u pid) else r)"
proof (cases "pid \<in> owners t u")
  case False
  then have "processWeights s pid = None" using assms by (simp add: weights_after_def)
  then show ?thesis using False by (simp add: distribute_one_def resolved_def)
next
  case True
  then have w: "processWeights s pid = Some (weight_of pid t u)"
    using assms by (simp add: weights_after_def weight_of_units)
  have tw: "totalWeight s = weight_sum t u"
    using assms by (simp add: weights_after_def weight_sum_units)
  show ?thesis
  proof (cases "g pid = []")
    case True
    then have "processNames s pid = None" using assms by (simp add: weights_after_def)
    then show ?thesis using w True by (simp add: distribute_one_def resolved_def)
  next
    case False
    then have "processNames s pid = Some (g pid)"
      using assms \<open>pid \<in> owners t u\<close> by (simp add: weights_after_def)
    then show ?thesis
      using w tw False \<open>pid \<in> owners t u\<close>
      by (simp add: distribute_one_def resolved_def entry_of_def)
  qed
qed

lemma distribute_absent:
  assumes "weights_after g t u s"
    and "\<forall>pid\<in>set pids. resolved g t u pid \<longrightarrow> g pid \<noteq> name"
  shows "distribute s up down pids r name = r name"
  using assms(2)
proof (induction pids arbitrary: r)
  case Nil
  then show ?case by simp
next
  case (Cons p ps)
  have "distribute s up down (p # ps) r name = distribute_one s up down p r name"
    using Cons by simp
  also have "\<dots> = r name"
    using Cons.prems by (auto simp: distribute_one_after [OF assms(1)])
  finally show ?case .
qed
















end
